theory Spec2Isabelle
  imports Complex_Main
begin

section \<open>Values of the interpreter\<close>

text \<open>
  The validators of \<^verbatim>\<open>reportlab/lib/validators.py\<close> decide about arbitrary run-time
  values, so the embedding starts with the values the module inspects: \<^verbatim>\<open>None\<close>,
  booleans, integers (unbounded), floats, strings, lists, tuples, class objects and
  instances of classes without special methods. An instance carries its class name and an
  object identity.

  Floats are represented by the real number they denote: rounding to double precision,
  NaN and the infinities are outside the model. Strings are lists of 8-bit characters.
\<close>

datatype pyval =
    PNone
  | PBool bool
  | PInt int
  | PFloat real
  | PStr string
  | PList "pyval list"
  | PTuple "pyval list"
  | PClass string
  | PInstance string nat

text \<open>The exceptions that the module and the builtins it calls can raise.\<close>

datatype exn = TypeError | ValueError | AttributeError | OverflowError | NameError

text \<open>\<^verbatim>\<open>type(x)\<close>: the exact type, so that \<^verbatim>\<open>type(True)\<close> is \<^verbatim>\<open>bool\<close>, not \<^verbatim>\<open>int\<close>.\<close>

datatype pytype =
    T_NoneType | T_bool | T_int | T_float | T_str | T_list | T_tuple | T_type
  | T_class string

fun py_type :: "pyval \<Rightarrow> pytype" where
  "py_type PNone = T_NoneType"
| "py_type (PBool b) = T_bool"
| "py_type (PInt i) = T_int"
| "py_type (PFloat r) = T_float"
| "py_type (PStr s) = T_str"
| "py_type (PList xs) = T_list"
| "py_type (PTuple xs) = T_tuple"
| "py_type (PClass c) = T_type"
| "py_type (PInstance c n) = T_class c"

text \<open>The numeric value of a number; \<^verbatim>\<open>bool\<close> is a subclass of \<^verbatim>\<open>int\<close>.\<close>

fun num_of :: "pyval \<Rightarrow> real option" where
  "num_of (PBool b) = Some (if b then 1 else 0)"
| "num_of (PInt i) = Some (of_int i)"
| "num_of (PFloat r) = Some r"
| "num_of x = None"

text \<open>
  \<^verbatim>\<open>x == y\<close>. Numbers compare by value across \<^verbatim>\<open>bool\<close>, \<^verbatim>\<open>int\<close> and \<^verbatim>\<open>float\<close>
  (\<^verbatim>\<open>True == 1 == 1.0\<close>); strings, lists and tuples compare with their own kind only;
  classes and plain instances compare by identity.
\<close>

fun py_eq :: "pyval \<Rightarrow> pyval \<Rightarrow> bool"
  and py_eq_list :: "pyval list \<Rightarrow> pyval list \<Rightarrow> bool" where
  "py_eq PNone y = (y = PNone)"
| "py_eq (PBool b) y = (num_of y = Some (if b then 1 else 0))"
| "py_eq (PInt i) y = (num_of y = Some (of_int i))"
| "py_eq (PFloat r) y = (num_of y = Some r)"
| "py_eq (PStr s) y = (y = PStr s)"
| "py_eq (PList xs) y = (case y of PList ys \<Rightarrow> py_eq_list xs ys | _ \<Rightarrow> False)"
| "py_eq (PTuple xs) y = (case y of PTuple ys \<Rightarrow> py_eq_list xs ys | _ \<Rightarrow> False)"
| "py_eq (PClass c) y = (y = PClass c)"
| "py_eq (PInstance c n) y = (y = PInstance c n)"
| "py_eq_list [] ys = (ys = [])"
| "py_eq_list (x # xs) ys = (case ys of [] \<Rightarrow> False | y # ys' \<Rightarrow> py_eq x y \<and> py_eq_list xs ys')"

text \<open>
  \<^verbatim>\<open>x in seq\<close> for a tuple or list: some element is \<^verbatim>\<open>x\<close> itself or equal to it.
  In this model identity implies \<open>py_eq\<close>, so equality alone decides.
\<close>

definition py_in :: "pyval \<Rightarrow> pyval list \<Rightarrow> bool" where
  "py_in x vs = list_ex (py_eq x) vs"

section \<open>Builtins used by the module\<close>

text \<open>
  The module calls the builtins \<^verbatim>\<open>float\<close>, \<^verbatim>\<open>int\<close>, \<^verbatim>\<open>len\<close> and the string method
  \<^verbatim>\<open>upper\<close>. Which strings are numeric literals is decided by the interpreter, not by
  this module, so the two literal grammars are parameters: \<open>float_lit s\<close> is the value of
  \<^verbatim>\<open>float(s)\<close> when \<open>s\<close> is a float literal, \<open>int_lit s\<close> that of \<^verbatim>\<open>int(s)\<close> when it
  is an integer literal, and \<open>None\<close> where the builtin raises \<^verbatim>\<open>ValueError\<close>.
\<close>

record grammar =
  float_lit :: "string \<Rightarrow> real option"
  int_lit :: "string \<Rightarrow> int option"

text \<open>
  An \<^verbatim>\<open>int\<close> converts to \<^verbatim>\<open>float\<close> unless it is too large for a double
  (\<^verbatim>\<open>OverflowError\<close>): the largest double is \<open>2^1024 - 2^971\<close>, and rounding to nearest
  overflows from \<open>2^1024 - 2^970\<close> on. The result is the real number of the same value:
  an integer beyond \<open>2^53\<close> is not rounded to the nearest double, as the interpreter
  would do.
\<close>

definition float_overflow :: int where
  "float_overflow = 2 ^ 1024 - 2 ^ 970"

fun py_float :: "grammar \<Rightarrow> pyval \<Rightarrow> exn + pyval" where
  "py_float G (PFloat r) = Inr (PFloat r)"
| "py_float G (PInt i) =
     (if \<bar>i\<bar> < float_overflow then Inr (PFloat (of_int i)) else Inl OverflowError)"
| "py_float G (PBool b) = Inr (PFloat (if b then 1 else 0))"
| "py_float G (PStr s) =
     (case float_lit G s of Some r \<Rightarrow> Inr (PFloat r) | None \<Rightarrow> Inl ValueError)"
| "py_float G x = Inl TypeError"

text \<open>\<^verbatim>\<open>int(x)\<close> truncates a float towards zero.\<close>

fun py_int :: "grammar \<Rightarrow> pyval \<Rightarrow> exn + pyval" where
  "py_int G (PInt i) = Inr (PInt i)"
| "py_int G (PBool b) = Inr (PInt (if b then 1 else 0))"
| "py_int G (PFloat r) = Inr (PInt (if 0 \<le> r then \<lfloor>r\<rfloor> else \<lceil>r\<rceil>))"
| "py_int G (PStr s) =
     (case int_lit G s of Some i \<Rightarrow> Inr (PInt i) | None \<Rightarrow> Inl ValueError)"
| "py_int G x = Inl TypeError"

text \<open>\<^verbatim>\<open>x.upper()\<close>: only strings have the method; the ASCII letters are raised.\<close>

definition upper_char :: "char \<Rightarrow> char" where
  "upper_char c =
     (case map_of (zip ''abcdefghijklmnopqrstuvwxyz'' ''ABCDEFGHIJKLMNOPQRSTUVWXYZ'') c of
        Some u \<Rightarrow> u
      | None \<Rightarrow> c)"

fun py_upper :: "pyval \<Rightarrow> exn + pyval" where
  "py_upper (PStr s) = Inr (PStr (map upper_char s))"
| "py_upper x = Inl AttributeError"

text \<open>
  \<^verbatim>\<open>a <= b\<close> where one operand is a number, the only use in the module
  (\<^verbatim>\<open>self.min <= n <= self.max\<close> with \<open>n\<close> a float or an int): numbers compare by value,
  and a number does not order against anything else (\<^verbatim>\<open>TypeError\<close>).
\<close>

definition py_le :: "pyval \<Rightarrow> pyval \<Rightarrow> exn + bool" where
  "py_le a b =
     (case (num_of a, num_of b) of
        (Some x, Some y) \<Rightarrow> Inr (x \<le> y)
      | _ \<Rightarrow> Inl TypeError)"

section \<open>Helpers imported from \<^verbatim>\<open>reportlab.lib.utils\<close>\<close>

text \<open>
  Modelled from the spec: \<^verbatim>\<open>isSeqType\<close> of \<^verbatim>\<open>reportlab.lib.utils\<close>, which is not
  among the source files. The spec speaks of sequences and of non-sequence inputs; the
  module compares a sequence against \<^verbatim>\<open>[]\<close> and \<^verbatim>\<open>()\<close> and its docstring calls
  \<^verbatim>\<open>OneOf('happy','sad')\<close> the form with no sequence argument, so the sequences are the
  lists and the tuples, and a string is none.
\<close>

fun isSeqType :: "pyval \<Rightarrow> bool" where
  "isSeqType (PList xs) = True"
| "isSeqType (PTuple xs) = True"
| "isSeqType x = False"

text \<open>The items of a sequence, in order (\<^verbatim>\<open>tuple(x)\<close>, \<^verbatim>\<open>for e in x\<close>).\<close>

fun seq_items :: "pyval \<Rightarrow> pyval list" where
  "seq_items (PList xs) = xs"
| "seq_items (PTuple xs) = xs"
| "seq_items x = []"

text \<open>
  Modelled from the spec: \<^verbatim>\<open>isStrType\<close> of \<^verbatim>\<open>reportlab.lib.utils\<close>, which is not
  among the source files: "accepts native text values only".
\<close>

fun isStrType :: "pyval \<Rightarrow> bool" where
  "isStrType (PStr s) = True"
| "isStrType x = False"

section \<open>The base class \<^verbatim>\<open>Validator\<close>\<close>

text \<open>
  A validator object offers \<^verbatim>\<open>test\<close> and \<^verbatim>\<open>normalize\<close>; either may raise. What a
  test returns is used as a truth value only (the module itself returns \<^verbatim>\<open>1\<close> and
  \<^verbatim>\<open>0\<close> in places), so the model keeps its truth value.
\<close>

type_synonym callable = "pyval \<Rightarrow> exn + bool"

record validator =
  test :: "pyval \<Rightarrow> exn + bool"
  normalize_v :: "pyval \<Rightarrow> exn + pyval"

text \<open>\<^verbatim>\<open>__call__\<close>: an instance called as a function runs its \<^verbatim>\<open>test\<close>.\<close>

definition Validator_call :: "validator \<Rightarrow> callable" where
  "Validator_call self x = test self x"

text \<open>\<^verbatim>\<open>Validator.normalize\<close>, inherited by every class that defines none.\<close>

definition Validator_normalize :: "pyval \<Rightarrow> exn + pyval" where
  "Validator_normalize x = Inr x"

text \<open>
  \<^verbatim>\<open>Validator.normalizeTest\<close>: the bare \<^verbatim>\<open>except:\<close> catches whatever
  \<^verbatim>\<open>self.normalize(x)\<close> raises. The first argument is \<^verbatim>\<open>self.normalize\<close> as the class
  of \<open>self\<close> resolves it.
\<close>

definition Validator_normalizeTest :: "(pyval \<Rightarrow> exn + pyval) \<Rightarrow> pyval \<Rightarrow> bool" where
  "Validator_normalizeTest normalize_self x =
     (case normalize_self x of Inr y \<Rightarrow> True | Inl e \<Rightarrow> False)"

section \<open>Primitive validators\<close>

text \<open>
  A class whose name starts with an underscore is written without it: the methods of
  \<^verbatim>\<open>_isBoolean\<close> are \<open>isBoolean_test\<close> and \<open>isBoolean_normalize\<close>, and the exported
  instance \<^verbatim>\<open>isBoolean = _isBoolean()\<close> is the record \<open>isBoolean\<close>.
\<close>

definition isAnything_test :: "pyval \<Rightarrow> exn + bool" where
  "isAnything_test x = Inr True"

definition isNothing_test :: "pyval \<Rightarrow> exn + bool" where
  "isNothing_test x = Inr False"

text \<open>
  \<^verbatim>\<open>_isBoolean.normalize\<close>. The \<^verbatim>\<open>try\<close> around \<^verbatim>\<open>x.upper()\<close> turns any failure into
  \<^verbatim>\<open>ValueError('Must be boolean')\<close>.
\<close>

definition isBoolean_normalize :: "pyval \<Rightarrow> exn + pyval" where
  "isBoolean_normalize x =
     (if py_in x [PInt 0, PInt 1] then Inr x
      else case py_upper x of
          Inl e \<Rightarrow> Inl ValueError
        | Inr S \<Rightarrow>
            if py_in S [PStr ''YES'', PStr ''TRUE''] then Inr (PBool True)
            else if py_in S [PStr ''NO'', PStr ''FALSE'', PNone] then Inr (PBool False)
            else Inl ValueError)"

definition isBoolean_test :: "pyval \<Rightarrow> exn + bool" where
  "isBoolean_test x =
     (if py_type x \<in> set [T_int, T_bool] then Inr (py_in x [PInt 0, PInt 1])
      else Inr (Validator_normalizeTest isBoolean_normalize x))"

definition isString_test :: "pyval \<Rightarrow> exn + bool" where
  "isString_test x = Inr (isStrType x)"

text \<open>\<^verbatim>\<open>_isNumber.normalize\<close>: \<^verbatim>\<open>float(x)\<close>, and \<^verbatim>\<open>int(x)\<close> when that raises anything.\<close>

definition isNumber_normalize :: "grammar \<Rightarrow> pyval \<Rightarrow> exn + pyval" where
  "isNumber_normalize G x =
     (case py_float G x of Inr v \<Rightarrow> Inr v | Inl e \<Rightarrow> py_int G x)"

definition isNumber_test :: "grammar \<Rightarrow> pyval \<Rightarrow> exn + bool" where
  "isNumber_test G x =
     (if py_type x \<in> set [T_float, T_int] then Inr True
      else Inr (Validator_normalizeTest (isNumber_normalize G) x))"

definition isInt_normalize :: "grammar \<Rightarrow> pyval \<Rightarrow> exn + pyval" where
  "isInt_normalize G x = py_int G x"

definition isInt_test :: "grammar \<Rightarrow> pyval \<Rightarrow> exn + bool" where
  "isInt_test G x =
     (if \<not> (isStrType x \<or> py_type x = T_int) then Inr False
      else Inr (Validator_normalizeTest (isInt_normalize G) x))"

text \<open>
  A method fetched from its class, as in \<^verbatim>\<open>_isNumber.normalize(x)\<close>, is the plain
  function \<^verbatim>\<open>normalize(self, x)\<close>: it needs both positional arguments, and a call with
  any other number of them raises \<^verbatim>\<open>TypeError\<close> before the body runs. The bodies
  called this way do not use \<open>self\<close>.
\<close>

definition call_self_x :: "(pyval \<Rightarrow> exn + 'a) \<Rightarrow> pyval list \<Rightarrow> exn + 'a" where
  "call_self_x body args = (case args of [self, x] \<Rightarrow> body x | _ \<Rightarrow> Inl TypeError)"

text \<open>
  \<^verbatim>\<open>_isNumberOrNone\<close>. Its \<^verbatim>\<open>test\<close> calls the instance \<^verbatim>\<open>isNumber\<close>; its
  \<^verbatim>\<open>normalize\<close> calls \<^verbatim>\<open>_isNumber.normalize(x)\<close>, with \<open>x\<close> as the only argument.
\<close>

definition isNumberOrNone_test :: "grammar \<Rightarrow> pyval \<Rightarrow> exn + bool" where
  "isNumberOrNone_test G x = (if x = PNone then Inr True else isNumber_test G x)"

definition isNumberOrNone_normalize :: "grammar \<Rightarrow> pyval \<Rightarrow> exn + pyval" where
  "isNumberOrNone_normalize G x =
     (if x = PNone then Inr x else call_self_x (isNumber_normalize G) [x])"

text \<open>
  \<^verbatim>\<open>isNumberInRange(min, max)\<close>, a subclass of \<^verbatim>\<open>_isNumber\<close> (it inherits
  \<^verbatim>\<open>normalize\<close>). In \<^verbatim>\<open>self.min <= n <= self.max\<close> the second comparison runs only when
  the first holds. Of what the \<^verbatim>\<open>try\<close> block raises, \<^verbatim>\<open>except ValueError\<close> catches
  that one class.
\<close>

record isNumberInRange =
  min_r :: pyval
  max_r :: pyval

definition isNumberInRange_init :: "pyval \<Rightarrow> pyval \<Rightarrow> isNumberInRange" where
  "isNumberInRange_init mn mx = \<lparr>min_r = mn, max_r = mx\<rparr>"

definition isNumberInRange_try :: "grammar \<Rightarrow> isNumberInRange \<Rightarrow> pyval \<Rightarrow> exn + bool" where
  "isNumberInRange_try G self x =
     (case isNumber_normalize G x of
        Inl e \<Rightarrow> Inl e
      | Inr n \<Rightarrow>
          (case py_le (min_r self) n of
             Inl e \<Rightarrow> Inl e
           | Inr b \<Rightarrow> if b then py_le n (max_r self) else Inr False))"

definition isNumberInRange_test :: "grammar \<Rightarrow> isNumberInRange \<Rightarrow> pyval \<Rightarrow> exn + bool" where
  "isNumberInRange_test G self x =
     (case isNumberInRange_try G self x of
        Inr b \<Rightarrow> Inr b
      | Inl e \<Rightarrow> if e = ValueError then Inr False else Inl e)"

section \<open>Combinators\<close>

text \<open>
  \<^verbatim>\<open>OneOf(enum, *args)\<close>: the constructor raises when a sequence comes with further
  arguments; \<^verbatim>\<open>test\<close> is \<^verbatim>\<open>x in self._enum\<close>.
\<close>

record OneOf =
  enum :: "pyval list"

definition OneOf_init :: "pyval \<Rightarrow> pyval list \<Rightarrow> exn + OneOf" where
  "OneOf_init e args =
     (if isSeqType e then
        (if args \<noteq> [] then Inl ValueError else Inr \<lparr>enum = seq_items e @ args\<rparr>)
      else Inr \<lparr>enum = e # args\<rparr>)"

definition OneOf_test :: "OneOf \<Rightarrow> pyval \<Rightarrow> exn + bool" where
  "OneOf_test self x = Inr (py_in x (enum self))"

text \<open>
  \<^verbatim>\<open>SequenceOf(elemTest, name, emptyOK, NoneOK, lo, hi)\<close>. The name only feeds
  \<^verbatim>\<open>__str__\<close> and is left out. The loop stops at the first element whose test is false
  or raises.
\<close>

record SequenceOf =
  elemTest :: callable
  emptyOK :: bool
  NoneOK :: bool
  lo :: int
  hi :: int

definition SequenceOf_init :: "callable \<Rightarrow> bool \<Rightarrow> bool \<Rightarrow> int \<Rightarrow> int \<Rightarrow> SequenceOf" where
  "SequenceOf_init t eOK nOK l h = \<lparr>elemTest = t, emptyOK = eOK, NoneOK = nOK, lo = l, hi = h\<rparr>"

fun SequenceOf_loop :: "callable \<Rightarrow> pyval list \<Rightarrow> exn + bool" where
  "SequenceOf_loop t [] = Inr True"
| "SequenceOf_loop t (e # es) =
     (case t e of
        Inl err \<Rightarrow> Inl err
      | Inr b \<Rightarrow> if \<not> b then Inr False else SequenceOf_loop t es)"

definition SequenceOf_test :: "SequenceOf \<Rightarrow> pyval \<Rightarrow> exn + bool" where
  "SequenceOf_test self x =
     (if \<not> isSeqType x then (if x = PNone then Inr (NoneOK self) else Inr False)
      else if py_eq x (PList []) \<or> py_eq x (PTuple []) then Inr (emptyOK self)
      else if \<not> (lo self \<le> int (length (seq_items x)) \<and> int (length (seq_items x)) \<le> hi self)
        then Inr False
      else SequenceOf_loop (elemTest self) (seq_items x))"

text \<open>
  \<^verbatim>\<open>EitherOr(tests, name)\<close>: the argument is a sequence of callables (\<open>Inr\<close>) or one
  callable (\<open>Inl\<close>), which the constructor wraps in a tuple.
\<close>

record EitherOr =
  tests :: "callable list"

definition EitherOr_init :: "callable + callable list \<Rightarrow> EitherOr" where
  "EitherOr_init ts = (case ts of Inl t \<Rightarrow> \<lparr>tests = [t]\<rparr> | Inr l \<Rightarrow> \<lparr>tests = l\<rparr>)"

fun EitherOr_loop :: "callable list \<Rightarrow> pyval \<Rightarrow> exn + bool" where
  "EitherOr_loop [] x = Inr False"
| "EitherOr_loop (t # ts) x =
     (case t x of
        Inl err \<Rightarrow> Inl err
      | Inr b \<Rightarrow> if b then Inr True else EitherOr_loop ts x)"

definition EitherOr_test :: "EitherOr \<Rightarrow> pyval \<Rightarrow> exn + bool" where
  "EitherOr_test self x = EitherOr_loop (tests self) x"

record NoneOr =
  elemTest_n :: callable

definition NoneOr_init :: "callable \<Rightarrow> NoneOr" where
  "NoneOr_init t = \<lparr>elemTest_n = t\<rparr>"

definition NoneOr_test :: "NoneOr \<Rightarrow> pyval \<Rightarrow> exn + bool" where
  "NoneOr_test self x = (if x = PNone then Inr True else elemTest_n self x)"

text \<open>
  \<^verbatim>\<open>Auto.test\<close>: \<open>x\<close> is the class \<^verbatim>\<open>Auto\<close> or an instance of it (the module defines
  no subclass of \<^verbatim>\<open>Auto\<close>). \<^verbatim>\<open>AutoOr\<close> is a subclass of \<^verbatim>\<open>NoneOr\<close> and asks the
  instance \<^verbatim>\<open>isAuto\<close> first.
\<close>

definition Auto_test :: "pyval \<Rightarrow> exn + bool" where
  "Auto_test x = Inr (x = PClass ''Auto'' \<or> py_type x = T_class ''Auto'')"

definition AutoOr_test :: "NoneOr \<Rightarrow> pyval \<Rightarrow> exn + bool" where
  "AutoOr_test self x =
     (case Auto_test x of
        Inl err \<Rightarrow> Inl err
      | Inr b \<Rightarrow> if b then Inr True else elemTest_n self x)"

text \<open>
  \<^verbatim>\<open>_isListOfNumbersOrNone\<close>, \<^verbatim>\<open>_isListOfStringsOrNone\<close> and \<^verbatim>\<open>_isTransform\<close> call
  exported instances, which are passed in as callables.
\<close>

definition isListOfOrNone_test :: "callable \<Rightarrow> pyval \<Rightarrow> exn + bool" where
  "isListOfOrNone_test isListOf x = (if x = PNone then Inr True else isListOf x)"

fun isTransform_loop :: "callable \<Rightarrow> pyval list \<Rightarrow> exn + bool" where
  "isTransform_loop t [] = Inr True"
| "isTransform_loop t (e # es) =
     (case t e of
        Inl err \<Rightarrow> Inl err
      | Inr b \<Rightarrow> if \<not> b then Inr False else isTransform_loop t es)"

definition isTransform_test :: "callable \<Rightarrow> pyval \<Rightarrow> exn + bool" where
  "isTransform_test isNum x =
     (if isSeqType x then
        (if length (seq_items x) = 6 then isTransform_loop isNum (seq_items x) else Inr False)
      else Inr False)"

section \<open>The pattern validator and the names of the module\<close>

text \<open>
  \<^verbatim>\<open>matchesPattern.__init__\<close> evaluates \<^verbatim>\<open>re.compile(pattern)\<close>. The name \<^verbatim>\<open>re\<close> is
  looked up among the names the module binds and then among the builtins; a name found
  in neither raises \<^verbatim>\<open>NameError\<close>. The module binds the names below by its own
  statements (lines 4 to 11, 161 and every \<^verbatim>\<open>class\<close> and assignment); the names that
  \<^verbatim>\<open>from types import *\<close> brings and the builtins belong to the interpreter and are a
  parameter \<open>outside\<close>.
\<close>

definition module_names :: "string list" where
  "module_names =
     [''__version__'', ''__doc__'', ''string'', ''sys'', ''codecs'', ''_NumberTypes'',
      ''colors'', ''isSeqType'', ''isStrType'', ''Validator'', ''_isAnything'',
      ''_isNothing'', ''_isBoolean'', ''_isString'', ''_isCodec'', ''_isNumber'', ''_isInt'',
      ''_isNumberOrNone'', ''_isListOfNumbersOrNone'', ''isNumberInRange'',
      ''_isListOfShapes'', ''_isListOfStringsOrNone'', ''_isTransform'', ''_isColor'',
      ''_isColorOrNone'', ''NormalDate'', ''_isNormalDate'', ''_isValidChild'',
      ''_isValidChildOrNone'', ''_isCallable'', ''OneOf'', ''SequenceOf'', ''EitherOr'',
      ''NoneOr'', ''Auto'', ''AutoOr'', ''isInstanceOf'', ''matchesPattern'',
      ''DerivedValue'', ''Inherit'', ''inherit'', ''NumericAlign'', ''isAuto'',
      ''isBoolean'', ''isString'', ''isCodec'', ''isNumber'', ''isInt'', ''isNoneOrInt'',
      ''isNumberOrNone'', ''isTextAnchor'', ''isListOfNumbers'', ''isListOfNumbersOrNone'',
      ''isListOfShapes'', ''isListOfStrings'', ''isListOfStringsOrNone'', ''isTransform'',
      ''isColor'', ''isListOfColors'', ''isColorOrNone'', ''isShape'', ''isValidChild'',
      ''isNoneOrShape'', ''isValidChildOrNone'', ''isAnything'', ''isNothing'',
      ''isXYCoord'', ''isBoxAnchor'', ''isNoneOrString'', ''isNoneOrListOfNoneOrStrings'',
      ''isListOfNoneOrString'', ''isNoneOrListOfNoneOrNumbers'', ''isCallable'',
      ''isStringOrCallable'', ''isStringOrCallableOrNone'', ''isStringOrNone'',
      ''isNormalDate'']"

definition global_name :: "string list \<Rightarrow> string \<Rightarrow> exn + string" where
  "global_name outside n =
     (if n \<in> set module_names \<or> n \<in> set outside then Inr n else Inl NameError)"

text \<open>
  The regular-expression engine is the interpreter's: \<open>re_compile\<close> stands for
  \<^verbatim>\<open>re.compile\<close>, \<open>re_match r s\<close> for \<^verbatim>\<open>r.match(s) != None\<close> and \<open>str_of\<close> for
  \<^verbatim>\<open>str\<close>. The \<^verbatim>\<open>print\<close> of \<^verbatim>\<open>test\<close> writes a trace and is left out.
\<close>

record 'r matchesPattern =
  pattern :: 'r

definition matchesPattern_init ::
  "string list \<Rightarrow> (string \<Rightarrow> exn + 'r) \<Rightarrow> string \<Rightarrow> exn + 'r matchesPattern" where
  "matchesPattern_init outside re_compile p =
     (case global_name outside ''re'' of
        Inl e \<Rightarrow> Inl e
      | Inr n \<Rightarrow> (case re_compile p of Inl e \<Rightarrow> Inl e | Inr r \<Rightarrow> Inr \<lparr>pattern = r\<rparr>))"

definition matchesPattern_test ::
  "('r \<Rightarrow> string \<Rightarrow> bool) \<Rightarrow> (pyval \<Rightarrow> string) \<Rightarrow> 'r matchesPattern \<Rightarrow> pyval \<Rightarrow> exn + bool" where
  "matchesPattern_test re_match str_of self x =
     (let text = (case x of PStr s \<Rightarrow> s | _ \<Rightarrow> str_of x)
      in Inr (re_match (pattern self) text))"

text \<open>
  The public names of the standard module \<^verbatim>\<open>types\<close> and the builtin functions and
  constants of Python 3 (of the builtin exception classes, the ones named in this file).
\<close>

definition py3_outside :: "string list" where
  "py3_outside =
     [''FunctionType'', ''LambdaType'', ''CodeType'', ''MappingProxyType'',
      ''SimpleNamespace'', ''CellType'', ''GeneratorType'', ''CoroutineType'',
      ''AsyncGeneratorType'', ''MethodType'', ''BuiltinFunctionType'',
      ''BuiltinMethodType'', ''WrapperDescriptorType'', ''MethodWrapperType'',
      ''MethodDescriptorType'', ''ClassMethodDescriptorType'', ''ModuleType'',
      ''TracebackType'', ''FrameType'', ''GetSetDescriptorType'', ''MemberDescriptorType'',
      ''new_class'', ''resolve_bases'', ''prepare_class'', ''DynamicClassAttribute'',
      ''coroutine'', ''GenericAlias'', ''EllipsisType'', ''NoneType'',
      ''NotImplementedType'', ''UnionType'',
      ''abs'', ''all'', ''any'', ''ascii'', ''bin'', ''bool'', ''breakpoint'',
      ''bytearray'', ''bytes'', ''callable'', ''chr'', ''classmethod'', ''compile'',
      ''complex'', ''delattr'', ''dict'', ''dir'', ''divmod'', ''enumerate'', ''eval'',
      ''exec'', ''filter'', ''float'', ''format'', ''frozenset'', ''getattr'', ''globals'',
      ''hasattr'', ''hash'', ''help'', ''hex'', ''id'', ''input'', ''int'', ''isinstance'',
      ''issubclass'', ''iter'', ''len'', ''list'', ''locals'', ''map'', ''max'',
      ''memoryview'', ''min'', ''next'', ''object'', ''oct'', ''open'', ''ord'', ''pow'',
      ''print'', ''property'', ''range'', ''repr'', ''reversed'', ''round'', ''set'',
      ''setattr'', ''slice'', ''sorted'', ''staticmethod'', ''str'', ''sum'', ''super'',
      ''tuple'', ''type'', ''vars'', ''zip'', ''__import__'', ''None'', ''True'', ''False'',
      ''Ellipsis'', ''NotImplemented'', ''__debug__'', ''Exception'', ''BaseException'',
      ''ValueError'', ''TypeError'', ''LookupError'', ''AttributeError'', ''NameError'',
      ''OverflowError'']"

section \<open>The deferred value and the exported instances\<close>

text \<open>\<^verbatim>\<open>inherit = Inherit()\<close>: the one instance of the class the module creates.\<close>

definition inherit :: pyval where
  "inherit = PInstance ''Inherit'' 0"

text \<open>
  An instance seen as a validator object. The combinator classes and the classes
  without a \<^verbatim>\<open>normalize\<close> of their own inherit \<^verbatim>\<open>Validator.normalize\<close>;
  \<^verbatim>\<open>isNumberInRange\<close> inherits that of \<^verbatim>\<open>_isNumber\<close>.
\<close>

definition plain_validator :: "callable \<Rightarrow> validator" where
  "plain_validator t = \<lparr>test = t, normalize_v = Validator_normalize\<rparr>"

definition isNumberInRange_obj :: "grammar \<Rightarrow> isNumberInRange \<Rightarrow> validator" where
  "isNumberInRange_obj G self =
     \<lparr>test = isNumberInRange_test G self, normalize_v = isNumber_normalize G\<rparr>"

definition isAuto :: validator where
  "isAuto = plain_validator Auto_test"

definition isBoolean :: validator where
  "isBoolean = \<lparr>test = isBoolean_test, normalize_v = isBoolean_normalize\<rparr>"

definition isString :: validator where
  "isString = plain_validator isString_test"

definition isNumber :: "grammar \<Rightarrow> validator" where
  "isNumber G = \<lparr>test = isNumber_test G, normalize_v = isNumber_normalize G\<rparr>"

definition isInt :: "grammar \<Rightarrow> validator" where
  "isInt G = \<lparr>test = isInt_test G, normalize_v = isInt_normalize G\<rparr>"

definition isNoneOrInt :: "grammar \<Rightarrow> validator" where
  "isNoneOrInt G = plain_validator (NoneOr_test (NoneOr_init (Validator_call (isInt G))))"

definition isNumberOrNone :: "grammar \<Rightarrow> validator" where
  "isNumberOrNone G =
     \<lparr>test = isNumberOrNone_test G, normalize_v = isNumberOrNone_normalize G\<rparr>"

definition isListOfNumbers :: "grammar \<Rightarrow> validator" where
  "isListOfNumbers G =
     plain_validator
       (SequenceOf_test (SequenceOf_init (Validator_call (isNumber G)) True False 0 0x7fffffff))"

definition isListOfNumbersOrNone :: "grammar \<Rightarrow> validator" where
  "isListOfNumbersOrNone G =
     plain_validator (isListOfOrNone_test (Validator_call (isListOfNumbers G)))"

definition isListOfStrings :: validator where
  "isListOfStrings =
     plain_validator
       (SequenceOf_test (SequenceOf_init (Validator_call isString) True False 0 0x7fffffff))"

definition isListOfStringsOrNone :: validator where
  "isListOfStringsOrNone =
     plain_validator (isListOfOrNone_test (Validator_call isListOfStrings))"

definition isTransform :: "grammar \<Rightarrow> validator" where
  "isTransform G = plain_validator (isTransform_test (Validator_call (isNumber G)))"

definition isAnything :: validator where
  "isAnything = plain_validator isAnything_test"

definition isNothing :: validator where
  "isNothing = plain_validator isNothing_test"

definition isXYCoord :: "grammar \<Rightarrow> validator" where
  "isXYCoord G =
     plain_validator
       (SequenceOf_test (SequenceOf_init (Validator_call (isNumber G)) False False 2 2))"

definition isNoneOrString :: validator where
  "isNoneOrString = plain_validator (NoneOr_test (NoneOr_init (Validator_call isString)))"

definition isNoneOrListOfNoneOrStrings :: validator where
  "isNoneOrListOfNoneOrStrings =
     plain_validator
       (SequenceOf_test
         (SequenceOf_init (Validator_call isNoneOrString) True True 0 0x7fffffff))"

definition isListOfNoneOrString :: validator where
  "isListOfNoneOrString =
     plain_validator
       (SequenceOf_test
         (SequenceOf_init (Validator_call isNoneOrString) True False 0 0x7fffffff))"

definition isNoneOrListOfNoneOrNumbers :: "grammar \<Rightarrow> validator" where
  "isNoneOrListOfNoneOrNumbers G =
     plain_validator
       (SequenceOf_test
         (SequenceOf_init (Validator_call (isNumberOrNone G)) True True 0 0x7fffffff))"

definition isStringOrNone :: validator where
  "isStringOrNone = plain_validator (NoneOr_test (NoneOr_init (Validator_call isString)))"

text \<open>
  \<^verbatim>\<open>isTextAnchor\<close> and \<^verbatim>\<open>isBoxAnchor\<close> are built by \<^verbatim>\<open>OneOf\<close> from string
  arguments; the constructor's result is kept as it is.
\<close>

definition isTextAnchor :: "exn + OneOf" where
  "isTextAnchor = OneOf_init (PStr ''start'') [PStr ''middle'', PStr ''end'', PStr ''boxauto'']"

definition isBoxAnchor :: "exn + OneOf" where
  "isBoxAnchor =
     OneOf_init (PStr ''nw'')
       [PStr ''n'', PStr ''ne'', PStr ''w'', PStr ''c'', PStr ''e'', PStr ''sw'', PStr ''s'',
        PStr ''se'', PStr ''autox'', PStr ''autoy'']"

text \<open>
  A small excerpt of the literal grammars, for evaluating examples: \<^verbatim>\<open>float("3.5")\<close>,
  \<^verbatim>\<open>float("3")\<close> and \<^verbatim>\<open>int("3")\<close> succeed; the other strings of the examples
  (\<^verbatim>\<open>"abc"\<close>, \<^verbatim>\<open>"x"\<close>, \<^verbatim>\<open>"maybe"\<close>) are no literals.
\<close>

definition example_grammar :: grammar where
  "example_grammar =
     \<lparr>float_lit = map_of [(''3.5'', 7 / 2), (''3'', 3)], int_lit = map_of [(''3'', 3)]\<rparr>"

section \<open>Facts about the builtins and the loops\<close>

lemma py_in_zero_one: "py_in x [PInt 0, PInt 1] = (py_eq x (PInt 0) \<or> py_eq x (PInt 1))"
  by (simp add: py_in_def)

lemma py_eq_list_Nil: "py_eq_list xs [] = (xs = [])"
  by (cases xs) simp_all

lemma py_eq_empty_seq:
  "isSeqType x \<Longrightarrow> (py_eq x (PList []) \<or> py_eq x (PTuple [])) = (seq_items x = [])"
  by (cases x) (simp_all add: py_eq_list_Nil)

lemma SequenceOf_loop_True:
  "SequenceOf_loop t xs = Inr True \<longleftrightarrow> (\<forall>e\<in>set xs. t e = Inr True)"
  by (induction xs) (auto split: sum.splits)

lemma EitherOr_loop_skip:
  "(\<forall>u\<in>set pre. u x = Inr False) \<Longrightarrow> EitherOr_loop (pre @ rest) x = EitherOr_loop rest x"
  by (induction pre) simp_all

lemma EitherOr_loop_found:
  "EitherOr_loop ts x = Inr True \<Longrightarrow>
     \<exists>pre t post. ts = pre @ t # post \<and> t x = Inr True \<and> (\<forall>u\<in>set pre. u x = Inr False)"
proof (induction ts)
  case Nil
  then show ?case by simp
next
  case (Cons a ts)
  show ?case
  proof (cases "a x = Inr True")
    case True
    then have "a # ts = [] @ a # ts \<and> a x = Inr True \<and> (\<forall>u\<in>set []. u x = Inr False)"
      by simp
    then show ?thesis by blast
  next
    case False
    with Cons.prems have ax: "a x = Inr False" and rest: "EitherOr_loop ts x = Inr True"
      by (auto split: sum.splits if_splits)
    from Cons.IH [OF rest] obtain pre t post
      where "ts = pre @ t # post" "t x = Inr True" "\<forall>u\<in>set pre. u x = Inr False"
      by blast
    with ax have "a # ts = (a # pre) @ t # post \<and> t x = Inr True
        \<and> (\<forall>u\<in>set (a # pre). u x = Inr False)"
      by simp
    then show ?thesis by blast
  qed
qed

lemma EitherOr_loop_True:
  "EitherOr_loop ts x = Inr True \<longleftrightarrow>
     (\<exists>pre t post. ts = pre @ t # post \<and> t x = Inr True \<and> (\<forall>u\<in>set pre. u x = Inr False))"
proof
  assume "EitherOr_loop ts x = Inr True"
  then show "\<exists>pre t post. ts = pre @ t # post \<and> t x = Inr True
      \<and> (\<forall>u\<in>set pre. u x = Inr False)"
    by (rule EitherOr_loop_found)
next
  assume "\<exists>pre t post. ts = pre @ t # post \<and> t x = Inr True \<and> (\<forall>u\<in>set pre. u x = Inr False)"
  then obtain pre t post
    where "ts = pre @ t # post" "t x = Inr True" "\<forall>u\<in>set pre. u x = Inr False"
    by blast
  then show "EitherOr_loop ts x = Inr True"
    by (simp add: EitherOr_loop_skip)
qed

section \<open>Which tests can raise\<close>

text \<open>
  The tests of the primitive validators below and of \<^verbatim>\<open>OneOf\<close> return a truth value
  for every input, and so do the combinators over a child that does.
\<close>

lemma primitive_tests_return:
  "\<exists>b. isAnything_test x = Inr b"
  "\<exists>b. isNothing_test x = Inr b"
  "\<exists>b. isBoolean_test x = Inr b"
  "\<exists>b. isString_test x = Inr b"
  "\<exists>b. isNumber_test G x = Inr b"
  "\<exists>b. isInt_test G x = Inr b"
  "\<exists>b. isNumberOrNone_test G x = Inr b"
  "\<exists>b. Auto_test x = Inr b"
  "\<exists>b. OneOf_test self x = Inr b"
  by (auto simp: isAnything_test_def isNothing_test_def isBoolean_test_def isString_test_def
      isNumber_test_def isInt_test_def isNumberOrNone_test_def Auto_test_def OneOf_test_def)

lemma SequenceOf_loop_returns:
  "(\<forall>e. \<exists>b. t e = Inr b) \<Longrightarrow> \<exists>b. SequenceOf_loop t xs = Inr b"
proof (induction xs)
  case Nil
  then show ?case by auto
next
  case (Cons a xs)
  from Cons.prems obtain b where "t a = Inr b" by blast
  with Cons show ?case by (cases b) auto
qed

lemma EitherOr_loop_returns:
  "(\<forall>t\<in>set ts. \<exists>b. t x = Inr b) \<Longrightarrow> \<exists>b. EitherOr_loop ts x = Inr b"
proof (induction ts)
  case Nil
  then show ?case by auto
next
  case (Cons a ts)
  from Cons.prems obtain b where "a x = Inr b" by auto
  with Cons show ?case by (cases b) auto
qed

lemma combinator_tests_return:
  assumes "\<forall>e. \<exists>b. E e = Inr b"
  shows "\<exists>b. SequenceOf_test (SequenceOf_init E eOK nOK l h) x = Inr b"
    and "\<exists>b. NoneOr_test (NoneOr_init E) x = Inr b"
    and "\<exists>b. AutoOr_test (NoneOr_init E) x = Inr b"
    and "\<exists>b. EitherOr_test (EitherOr_init (Inl E)) x = Inr b"
proof -
  show "\<exists>b. SequenceOf_test (SequenceOf_init E eOK nOK l h) x = Inr b"
    using SequenceOf_loop_returns [OF assms]
    by (auto simp: SequenceOf_test_def SequenceOf_init_def)
  show "\<exists>b. NoneOr_test (NoneOr_init E) x = Inr b"
    using assms by (auto simp: NoneOr_test_def NoneOr_init_def)
  show "\<exists>b. AutoOr_test (NoneOr_init E) x = Inr b"
    using assms by (auto simp: AutoOr_test_def Auto_test_def NoneOr_init_def)
  from assms obtain b where "E x = Inr b" by blast
  then show "\<exists>b. EitherOr_test (EitherOr_init (Inl E)) x = Inr b"
    by (cases b) (auto simp: EitherOr_test_def EitherOr_init_def)
qed

text \<open>
  With integer bounds, the test of \<^verbatim>\<open>isNumberInRange\<close> raises exactly on the inputs
  that \<^verbatim>\<open>float\<close> refuses and on which \<^verbatim>\<open>int\<close> raises \<^verbatim>\<open>TypeError\<close>.
\<close>

lemma isNumberInRange_test_raises_iff:
  "(\<exists>e. isNumberInRange_test G (isNumberInRange_init (PInt a) (PInt b)) x = Inl e) \<longleftrightarrow>
     py_int G x = Inl TypeError \<and> (\<exists>e. py_float G x = Inl e)"
  by (cases x)
    (auto simp: isNumberInRange_test_def isNumberInRange_try_def isNumberInRange_init_def
      isNumber_normalize_def py_le_def split: sum.splits option.splits if_splits)

text \<open>
  Claim C1 says that \<^verbatim>\<open>test(v)\<close> of every validator instance, \<^verbatim>\<open>isNumberInRange\<close>
  instances included, returns a boolean and never raises, whatever \<open>v\<close> is. The
  \<^verbatim>\<open>test\<close> of \<^verbatim>\<open>isNumberInRange\<close> catches \<^verbatim>\<open>ValueError\<close> only: for \<^verbatim>\<open>None\<close>, for the
  deferred value \<^verbatim>\<open>inherit\<close> and for an empty list, \<^verbatim>\<open>float(x)\<close> fails, the fallback
  \<^verbatim>\<open>int(x)\<close> raises \<^verbatim>\<open>TypeError\<close>, and the test raises it, whatever the bounds and
  the literal grammar are.
\<close>

theorem isNumberInRange_test_raises_TypeError:
  "isNumberInRange_test G (isNumberInRange_init mn mx) PNone = Inl TypeError
   \<and> isNumberInRange_test G (isNumberInRange_init mn mx) inherit = Inl TypeError
   \<and> isNumberInRange_test G (isNumberInRange_init mn mx) (PList []) = Inl TypeError"
  by (simp add: isNumberInRange_test_def isNumberInRange_try_def isNumber_normalize_def
      inherit_def)

section \<open>The deferred value\<close>

text \<open>
  No validator of the module looks for the deferred value. \<^verbatim>\<open>NoneOr\<close> and \<^verbatim>\<open>AutoOr\<close>
  hand \<^verbatim>\<open>inherit\<close> to their child and return the child's answer, \<^verbatim>\<open>SequenceOf\<close>
  rejects it, and \<^verbatim>\<open>EitherOr\<close> accepts it exactly when one of its children accepts it
  and the children before that one returned false.
\<close>

lemma inherit_handed_to_child:
  "NoneOr_test (NoneOr_init E) inherit = E inherit
   \<and> AutoOr_test (NoneOr_init E) inherit = E inherit
   \<and> SequenceOf_test (SequenceOf_init E eOK nOK l h) inherit = Inr False
   \<and> (EitherOr_test (EitherOr_init (Inr ts)) inherit = Inr True \<longleftrightarrow>
        (\<exists>pre t post. ts = pre @ t # post \<and> t inherit = Inr True
           \<and> (\<forall>u\<in>set pre. u inherit = Inr False)))"
proof -
  have a: "NoneOr_test (NoneOr_init E) inherit = E inherit"
    by (simp add: NoneOr_test_def NoneOr_init_def inherit_def)
  have b: "AutoOr_test (NoneOr_init E) inherit = E inherit"
    by (simp add: AutoOr_test_def Auto_test_def NoneOr_init_def inherit_def)
  have c: "SequenceOf_test (SequenceOf_init E eOK nOK l h) inherit = Inr False"
    by (simp add: SequenceOf_test_def inherit_def)
  have d: "EitherOr_test (EitherOr_init (Inr ts)) inherit = EitherOr_loop ts inherit"
    by (simp add: EitherOr_test_def EitherOr_init_def)
  show ?thesis unfolding d EitherOr_loop_True using a b c by blast
qed

text \<open>
  Claim C2 says that every validator that receives the deferred value \<^verbatim>\<open>inherit\<close>, the
  combinators \<^verbatim>\<open>NoneOr\<close>, \<^verbatim>\<open>EitherOr\<close> and \<^verbatim>\<open>SequenceOf\<close> in particular, answers
  true without asking a child validator, and the docstring of \<^verbatim>\<open>DerivedValue\<close> says
  that validators will permit such a value. The code rejects it: the exported
  \<^verbatim>\<open>isNoneOrString\<close>, which is \<^verbatim>\<open>NoneOr(isString)\<close>, asks \<^verbatim>\<open>isString\<close> and answers
  false; the exported \<^verbatim>\<open>isListOfStrings\<close>, a \<^verbatim>\<open>SequenceOf\<close>, answers false; and
  \<^verbatim>\<open>EitherOr((isString, isNothing))\<close> asks both children and answers false.
\<close>

theorem inherit_rejected_by_combinators:
  "test isNoneOrString inherit = Inr False
   \<and> NoneOr_test (NoneOr_init (Validator_call isString)) inherit = test isString inherit
   \<and> test isListOfStrings inherit = Inr False
   \<and> EitherOr_test (EitherOr_init (Inr [Validator_call isString, Validator_call isNothing]))
        inherit = Inr False"
  by (simp add: isNoneOrString_def isListOfStrings_def plain_validator_def NoneOr_test_def
      NoneOr_init_def Validator_call_def isString_def isString_test_def inherit_def
      SequenceOf_test_def EitherOr_test_def EitherOr_init_def isNothing_def isNothing_test_def)

section \<open>The boolean validator\<close>

text \<open>
  Claim C3 lists values of the boolean validator's \<^verbatim>\<open>normalize\<close>: true for
  \<^verbatim>\<open>"YES"\<close> and \<^verbatim>\<open>"true"\<close>, false for \<^verbatim>\<open>"NO"\<close> and for \<^verbatim>\<open>None\<close>, and a coercion
  error for \<^verbatim>\<open>"maybe"\<close>. The code gives the four string results. For \<^verbatim>\<open>None\<close> it
  raises \<^verbatim>\<open>ValueError\<close>: \<^verbatim>\<open>None\<close> has no \<^verbatim>\<open>upper\<close>, so the \<^verbatim>\<open>None\<close> listed beside
  \<^verbatim>\<open>'NO'\<close> and \<^verbatim>\<open>'FALSE'\<close> is never reached.
\<close>

theorem isBoolean_normalize_examples:
  "isBoolean_normalize (PStr ''YES'') = Inr (PBool True)
   \<and> isBoolean_normalize (PStr ''true'') = Inr (PBool True)
   \<and> isBoolean_normalize (PStr ''NO'') = Inr (PBool False)
   \<and> isBoolean_normalize (PStr ''maybe'') = Inl ValueError
   \<and> isBoolean_normalize PNone = Inl ValueError"
  by (simp add: isBoolean_normalize_def py_in_def upper_char_def)

text \<open>
  Claim C10: for every \<open>x\<close> that compares equal to \<^verbatim>\<open>0\<close> or to \<^verbatim>\<open>1\<close>, the boolean
  validator's \<^verbatim>\<open>normalize\<close> returns \<open>x\<close> itself (the integer \<^verbatim>\<open>1\<close> stays an integer,
  the float \<^verbatim>\<open>1.0\<close> a float) and \<^verbatim>\<open>test\<close> accepts \<open>x\<close>; \<^verbatim>\<open>test\<close> accepts
  \<^verbatim>\<open>1.0\<close> and rejects \<^verbatim>\<open>2\<close>, as it rejects every number other than \<^verbatim>\<open>0\<close> and
  \<^verbatim>\<open>1\<close>.
\<close>

theorem isBoolean_keeps_zero_and_one:
  "(py_eq x (PInt 0) \<or> py_eq x (PInt 1) \<longrightarrow>
      isBoolean_normalize x = Inr x \<and> isBoolean_test x = Inr True)
   \<and> isBoolean_normalize (PInt 1) = Inr (PInt 1)
   \<and> isBoolean_normalize (PFloat 1) = Inr (PFloat 1)
   \<and> isBoolean_test (PFloat 1) = Inr True
   \<and> isBoolean_test (PInt 2) = Inr False
   \<and> (num_of x = Some r \<and> r \<noteq> 0 \<and> r \<noteq> 1 \<longrightarrow> isBoolean_test x = Inr False)"
proof -
  have a: "isBoolean_normalize y = Inr y" if "py_eq y (PInt 0) \<or> py_eq y (PInt 1)" for y
    using that by (simp add: isBoolean_normalize_def py_in_zero_one)
  have b: "isBoolean_test y = Inr True" if "py_eq y (PInt 0) \<or> py_eq y (PInt 1)" for y
    using that a [OF that]
    by (simp add: isBoolean_test_def py_in_zero_one Validator_normalizeTest_def)
  have c: "isBoolean_test x = Inr False" if "num_of x = Some r" "r \<noteq> 0" "r \<noteq> 1"
    using that
    by (cases x) (auto simp: isBoolean_test_def isBoolean_normalize_def py_in_def
        Validator_normalizeTest_def split: if_splits)
  have d: "isBoolean_test (PInt 2) = Inr False"
    by (simp add: isBoolean_test_def py_in_def)
  show ?thesis using a b c d by simp
qed

theorem isBoolean_keeps_zero_and_one_witness:
  "py_eq (PFloat 1) (PInt 1)
   \<and> isBoolean_normalize (PFloat 1) = Inr (PFloat 1)
   \<and> isBoolean_test (PFloat 1) = Inr True
   \<and> num_of (PFloat (5 / 2)) = Some (5 / 2)
   \<and> isBoolean_test (PFloat (5 / 2)) = Inr False"
proof -
  have h1: "py_eq (PFloat 1) (PInt 0) \<or> py_eq (PFloat 1) (PInt 1)" by simp
  have h2: "num_of (PFloat (5 / 2)) = Some (5 / 2) \<and> (5 / 2 :: real) \<noteq> 0 \<and> (5 / 2 :: real) \<noteq> 1"
    by simp
  show ?thesis
    using h1 h2 isBoolean_keeps_zero_and_one [of "PFloat 1" "5 / 2"]
      isBoolean_keeps_zero_and_one [of "PFloat (5 / 2)" "5 / 2"]
    by simp
qed

section \<open>Sequences\<close>

text \<open>
  Claim C4: a \<^verbatim>\<open>SequenceOf\<close> validator with element test \<open>E\<close>, flags \<^verbatim>\<open>emptyOK\<close> and
  \<^verbatim>\<open>NoneOK\<close> and bounds \<^verbatim>\<open>lo\<close>, \<^verbatim>\<open>hi\<close> rejects every input that is neither a
  sequence nor \<^verbatim>\<open>None\<close>; answers \<^verbatim>\<open>NoneOK\<close> for \<^verbatim>\<open>None\<close>; answers \<^verbatim>\<open>emptyOK\<close> for
  an empty list or tuple, whatever the bounds; and accepts a non-empty sequence exactly
  when its length lies within the bounds and \<open>E\<close> accepts every element. For
  \<^verbatim>\<open>SequenceOf(isNumber, emptyOK=0, lo=2, hi=2)\<close>, the instance \<^verbatim>\<open>isXYCoord\<close>:
  \<^verbatim>\<open>[]\<close> is rejected, \<^verbatim>\<open>[1,2]\<close> accepted, \<^verbatim>\<open>[1,2,3]\<close> rejected, \<^verbatim>\<open>None\<close> rejected.
\<close>

theorem SequenceOf_test_accepts_iff:
  "(\<not> isSeqType x \<and> x \<noteq> PNone \<longrightarrow>
      SequenceOf_test (SequenceOf_init E eOK nOK l h) x = Inr False)
   \<and> SequenceOf_test (SequenceOf_init E eOK nOK l h) PNone = Inr nOK
   \<and> SequenceOf_test (SequenceOf_init E eOK nOK l h) (PList []) = Inr eOK
   \<and> SequenceOf_test (SequenceOf_init E eOK nOK l h) (PTuple []) = Inr eOK
   \<and> (isSeqType x \<and> seq_items x \<noteq> [] \<longrightarrow>
        (SequenceOf_test (SequenceOf_init E eOK nOK l h) x = Inr True \<longleftrightarrow>
           l \<le> int (length (seq_items x)) \<and> int (length (seq_items x)) \<le> h
           \<and> (\<forall>e\<in>set (seq_items x). E e = Inr True)))
   \<and> test (isXYCoord G) (PList []) = Inr False
   \<and> test (isXYCoord G) (PList [PInt 1, PInt 2]) = Inr True
   \<and> test (isXYCoord G) (PList [PInt 1, PInt 2, PInt 3]) = Inr False
   \<and> test (isXYCoord G) PNone = Inr False"
proof -
  let ?S = "SequenceOf_init E eOK nOK l h"
  have a: "\<not> isSeqType x \<and> x \<noteq> PNone \<longrightarrow> SequenceOf_test ?S x = Inr False"
    by (simp add: SequenceOf_test_def)
  have b: "SequenceOf_test ?S PNone = Inr nOK"
    by (simp add: SequenceOf_test_def SequenceOf_init_def)
  have c: "SequenceOf_test ?S (PList []) = Inr eOK" "SequenceOf_test ?S (PTuple []) = Inr eOK"
    by (simp_all add: SequenceOf_test_def SequenceOf_init_def)
  have d: "isSeqType x \<and> seq_items x \<noteq> [] \<longrightarrow>
        (SequenceOf_test ?S x = Inr True \<longleftrightarrow>
           l \<le> int (length (seq_items x)) \<and> int (length (seq_items x)) \<le> h
           \<and> (\<forall>e\<in>set (seq_items x). E e = Inr True))"
    by (auto simp: SequenceOf_test_def SequenceOf_init_def py_eq_empty_seq SequenceOf_loop_True)
  have e: "test (isXYCoord G) (PList []) = Inr False"
    "test (isXYCoord G) (PList [PInt 1, PInt 2]) = Inr True"
    "test (isXYCoord G) (PList [PInt 1, PInt 2, PInt 3]) = Inr False"
    "test (isXYCoord G) PNone = Inr False"
    by (simp_all add: isXYCoord_def plain_validator_def SequenceOf_test_def SequenceOf_init_def
        Validator_call_def isNumber_def isNumber_test_def)
  show ?thesis using a b c d e by blast
qed

theorem SequenceOf_test_accepts_iff_witness:
  "(\<not> isSeqType (PStr ''ab'') \<and> PStr ''ab'' \<noteq> PNone)
   \<and> SequenceOf_test (SequenceOf_init isString_test True True 0 5) (PStr ''ab'') = Inr False
   \<and> (isSeqType (PTuple [PStr ''a'', PStr ''b'']) \<and> seq_items (PTuple [PStr ''a'', PStr ''b'']) \<noteq> [])
   \<and> SequenceOf_test (SequenceOf_init isString_test False False 1 5)
        (PTuple [PStr ''a'', PStr ''b'']) = Inr True
   \<and> SequenceOf_test (SequenceOf_init isString_test False False 3 5)
        (PTuple [PStr ''a'', PStr ''b'']) \<noteq> Inr True
   \<and> SequenceOf_test (SequenceOf_init isString_test False False 1 5)
        (PTuple [PStr ''a'', PInt 7]) \<noteq> Inr True"
proof -
  have h1: "\<not> isSeqType (PStr ''ab'') \<and> PStr ''ab'' \<noteq> PNone" by simp
  have h2: "isSeqType (PTuple [PStr ''a'', PStr ''b''])
      \<and> seq_items (PTuple [PStr ''a'', PStr ''b'']) \<noteq> []" by simp
  have h3: "isSeqType (PTuple [PStr ''a'', PInt 7])
      \<and> seq_items (PTuple [PStr ''a'', PInt 7]) \<noteq> []" by simp
  have el: "isString_test (PStr ''a'') = Inr True" "isString_test (PStr ''b'') = Inr True"
    "isString_test (PInt 7) = Inr False"
    by (simp_all add: isString_test_def)
  have r3: "SequenceOf_test (SequenceOf_init isString_test False False 3 5)
        (PTuple [PStr ''a'', PStr ''b'']) \<noteq> Inr True"
    using h2 SequenceOf_test_accepts_iff
      [of "PTuple [PStr ''a'', PStr ''b'']" isString_test False False 3 5]
    by simp
  have r4: "SequenceOf_test (SequenceOf_init isString_test False False 1 5)
        (PTuple [PStr ''a'', PInt 7]) \<noteq> Inr True"
    using h3 el SequenceOf_test_accepts_iff
      [of "PTuple [PStr ''a'', PInt 7]" isString_test False False 1 5]
    by simp
  show ?thesis
    using h1 h2 el r3 r4
      SequenceOf_test_accepts_iff [of "PStr ''ab''" isString_test True True 0 5]
      SequenceOf_test_accepts_iff
        [of "PTuple [PStr ''a'', PStr ''b'']" isString_test False False 1 5]
    by simp
qed

section \<open>Coercion tests\<close>

text \<open>
  Claim C5: \<^verbatim>\<open>normalizeTest(v)\<close> is true exactly when \<^verbatim>\<open>normalize(v)\<close> succeeds, and
  it is false, not an exception, for every kind of failure of \<^verbatim>\<open>normalize\<close>: the
  statement holds for any \<^verbatim>\<open>normalize\<close> and any exception \<open>e\<close> it raises.
\<close>

theorem normalizeTest_catches_every_failure:
  "(Validator_normalizeTest nrm x \<longleftrightarrow> (\<exists>y. nrm x = Inr y))
   \<and> (\<forall>e. nrm x = Inl e \<longrightarrow> Validator_normalizeTest nrm x = False)"
  by (auto simp: Validator_normalizeTest_def split: sum.splits)

theorem normalizeTest_catches_every_failure_witness:
  "isInt_normalize example_grammar PNone = Inl TypeError
   \<and> Validator_normalizeTest (isInt_normalize example_grammar) PNone = False
   \<and> isInt_normalize example_grammar (PStr ''abc'') = Inl ValueError
   \<and> Validator_normalizeTest (isInt_normalize example_grammar) (PStr ''abc'') = False
   \<and> isBoolean_normalize (PStr ''maybe'') = Inl ValueError
   \<and> Validator_normalizeTest isBoolean_normalize (PStr ''maybe'') = False
   \<and> isInt_normalize example_grammar (PStr ''3'') = Inr (PInt 3)
   \<and> Validator_normalizeTest (isInt_normalize example_grammar) (PStr ''3'') = True"
proof -
  have a: "isInt_normalize example_grammar PNone = Inl TypeError"
    by (simp add: isInt_normalize_def)
  have b: "isInt_normalize example_grammar (PStr ''abc'') = Inl ValueError"
    by (simp add: isInt_normalize_def example_grammar_def)
  have c: "isBoolean_normalize (PStr ''maybe'') = Inl ValueError"
    by (simp add: isBoolean_normalize_def py_in_def upper_char_def)
  have d: "isInt_normalize example_grammar (PStr ''3'') = Inr (PInt 3)"
    by (simp add: isInt_normalize_def example_grammar_def)
  show ?thesis
    using a b c d
      normalizeTest_catches_every_failure [of "isInt_normalize example_grammar" PNone]
      normalizeTest_catches_every_failure [of "isInt_normalize example_grammar" "PStr ''abc''"]
      normalizeTest_catches_every_failure [of isBoolean_normalize "PStr ''maybe''"]
      normalizeTest_catches_every_failure [of "isInt_normalize example_grammar" "PStr ''3''"]
    by simp
qed

section \<open>Enumerations\<close>

text \<open>
  Claim C6: \<^verbatim>\<open>OneOf\<close> given a sequence as first argument and further positional values
  raises at construction; built from one sequence, or from values of which the first is
  no sequence, its \<^verbatim>\<open>test(x)\<close> is true exactly when \<open>x\<close> equals one of the enumerated
  values. Equality is \<^verbatim>\<open>==\<close> and nothing is converted: a string is accepted exactly when
  that very string is enumerated.
\<close>

theorem OneOf_init_and_test:
  "(isSeqType e \<and> args \<noteq> [] \<longrightarrow> OneOf_init e args = Inl ValueError)
   \<and> (isSeqType e \<longrightarrow>
        (\<exists>self. OneOf_init e [] = Inr self
           \<and> (\<forall>x. OneOf_test self x = Inr (\<exists>v\<in>set (seq_items e). py_eq x v))))
   \<and> (\<not> isSeqType e \<longrightarrow>
        (\<exists>self. OneOf_init e args = Inr self
           \<and> (\<forall>x. OneOf_test self x = Inr (\<exists>v\<in>set (e # args). py_eq x v))))
   \<and> OneOf_test \<lparr>enum = vs\<rparr> (PStr s) = Inr (PStr s \<in> set vs)"
proof -
  have str: "py_eq (PStr s) v = (v = PStr s)" for v by simp
  have "list_ex (py_eq (PStr s)) vs = (PStr s \<in> set vs)"
    unfolding list_ex_iff str by blast
  then show ?thesis
    by (auto simp: OneOf_init_def OneOf_test_def py_in_def list_ex_iff)
qed

theorem OneOf_init_and_test_witness:
  "(isSeqType (PTuple [PStr ''happy'', PStr ''sad'']) \<and> [PStr ''grumpy''] \<noteq> [])
   \<and> OneOf_init (PTuple [PStr ''happy'', PStr ''sad'']) [PStr ''grumpy''] = Inl ValueError
   \<and> (\<exists>self. OneOf_init (PTuple [PStr ''happy'', PStr ''sad'']) [] = Inr self
         \<and> OneOf_test self (PStr ''sad'') = Inr True
         \<and> OneOf_test self (PStr ''grumpy'') = Inr False)
   \<and> \<not> isSeqType (PStr ''happy'')
   \<and> (\<exists>self. OneOf_init (PStr ''happy'') [PStr ''sad''] = Inr self
         \<and> OneOf_test self (PStr ''sad'') = Inr True
         \<and> OneOf_test self (PStr ''SAD'') = Inr False
         \<and> OneOf_test self (PInt 1) = Inr False)"
proof -
  have h1: "isSeqType (PTuple [PStr ''happy'', PStr ''sad'']) \<and> [PStr ''grumpy''] \<noteq> []"
    by simp
  have h2: "\<not> isSeqType (PStr ''happy'')" by simp
  from h1 OneOf_init_and_test [of "PTuple [PStr ''happy'', PStr ''sad'']" "[PStr ''grumpy'']"]
  have a: "OneOf_init (PTuple [PStr ''happy'', PStr ''sad'']) [PStr ''grumpy''] = Inl ValueError"
    by blast
  from h1 OneOf_init_and_test [of "PTuple [PStr ''happy'', PStr ''sad'']" "[]"]
  obtain s1 where s1: "OneOf_init (PTuple [PStr ''happy'', PStr ''sad'']) [] = Inr s1"
      "\<forall>x. OneOf_test s1 x
          = Inr (\<exists>v\<in>set (seq_items (PTuple [PStr ''happy'', PStr ''sad''])). py_eq x v)"
    by blast
  from h2 OneOf_init_and_test [of "PStr ''happy''" "[PStr ''sad'']"]
  obtain s2 where s2: "OneOf_init (PStr ''happy'') [PStr ''sad''] = Inr s2"
      "\<forall>x. OneOf_test s2 x = Inr (\<exists>v\<in>set (PStr ''happy'' # [PStr ''sad'']). py_eq x v)"
    by blast
  have b: "\<exists>self. OneOf_init (PTuple [PStr ''happy'', PStr ''sad'']) [] = Inr self
         \<and> OneOf_test self (PStr ''sad'') = Inr True
         \<and> OneOf_test self (PStr ''grumpy'') = Inr False"
    using s1 by simp
  have c: "\<exists>self. OneOf_init (PStr ''happy'') [PStr ''sad''] = Inr self
         \<and> OneOf_test self (PStr ''sad'') = Inr True
         \<and> OneOf_test self (PStr ''SAD'') = Inr False
         \<and> OneOf_test self (PInt 1) = Inr False"
    using s2 by simp
  show ?thesis using h1 h2 a b c by blast
qed

section \<open>Normalizing accepted values\<close>

text \<open>
  Where \<^verbatim>\<open>test\<close> accepts a value by its type alone, the \<^verbatim>\<open>normalize\<close> of the boolean,
  number and integer validators succeeds, and normalizing its result again changes
  nothing.
\<close>

lemma isBoolean_normalize_accepted:
  "py_type x \<in> set [T_int, T_bool] \<Longrightarrow> isBoolean_test x = Inr True \<Longrightarrow>
     isBoolean_normalize x = Inr x"
  by (simp add: isBoolean_test_def isBoolean_normalize_def)

lemma isNumber_normalize_accepted:
  "py_type x \<in> set [T_float, T_int] \<Longrightarrow>
     \<exists>y. isNumber_normalize G x = Inr y \<and> isNumber_normalize G y = Inr y"
  by (cases x) (auto simp: isNumber_normalize_def)

lemma isInt_normalize_accepted:
  "py_type x = T_int \<Longrightarrow> isInt_normalize G x = Inr x"
  by (cases x) (auto simp: isInt_normalize_def)

text \<open>
  Claim C7 says that for every validator with a \<^verbatim>\<open>normalize\<close> and every value its
  \<^verbatim>\<open>test\<close> accepts without coercion, \<^verbatim>\<open>normalize\<close> succeeds and is idempotent.
  \<^verbatim>\<open>isNumberOrNone\<close> accepts the integer \<^verbatim>\<open>3\<close> as it is, and its \<^verbatim>\<open>normalize\<close>
  raises \<^verbatim>\<open>TypeError\<close> on it: \<^verbatim>\<open>_isNumber.normalize(x)\<close> passes \<open>x\<close> in the place of
  \<open>self\<close> and nothing for \<open>x\<close>.
\<close>

theorem isNumberOrNone_normalize_raises:
  "isNumberOrNone_test G (PInt 3) = Inr True
   \<and> isNumberOrNone_normalize G (PInt 3) = Inl TypeError"
  by (simp add: isNumberOrNone_test_def isNumberOrNone_normalize_def isNumber_test_def
      call_self_x_def)

section \<open>The pattern validator\<close>

text \<open>
  Claim C8 says that a \<^verbatim>\<open>matchesPattern\<close> validator can be built from a regular
  expression and that its \<^verbatim>\<open>test\<close> matches the pattern at the start of the candidate's
  text. The module never imports \<^verbatim>\<open>re\<close>: unless the name comes from outside the
  module, the constructor raises \<^verbatim>\<open>NameError\<close> for every pattern, whatever
  \<^verbatim>\<open>re.compile\<close> would do, and no instance exists to be tested.
\<close>

theorem matchesPattern_init_NameError:
  "''re'' \<notin> set outside \<Longrightarrow> matchesPattern_init outside re_compile p = Inl NameError"
  by (simp add: matchesPattern_init_def global_name_def module_names_def)

theorem matchesPattern_init_NameError_witness:
  "''re'' \<notin> set py3_outside
   \<and> matchesPattern_init py3_outside (\<lambda>s. Inr s :: exn + string) ''[0-9]+'' = Inl NameError"
proof -
  have h: "''re'' \<notin> set py3_outside" by (simp add: py3_outside_def)
  show ?thesis using h matchesPattern_init_NameError [OF h] by simp
qed

section \<open>Calling a validator\<close>

lemma EitherOr_loop_single: "EitherOr_loop [t] x = t x"
proof (cases "t x")
  case (Inl e)
  then show ?thesis by simp
next
  case (Inr b)
  then show ?thesis by (cases b) simp_all
qed

lemma SequenceOf_loop_single: "SequenceOf_loop t [e] = t e"
proof (cases "t e")
  case (Inl err)
  then show ?thesis by simp
next
  case (Inr b)
  then show ?thesis by (cases b) simp_all
qed

text \<open>
  Claim C9: a validator instance called as a function returns what its \<^verbatim>\<open>test\<close>
  returns, and the combinators rely on it when they call a stored child validator.
  With the child \<open>V\<close> stored as a callable, \<^verbatim>\<open>NoneOr\<close> answers true for \<^verbatim>\<open>None\<close> and
  otherwise returns \<open>V\<close>'s \<^verbatim>\<open>test\<close> of the value; \<^verbatim>\<open>AutoOr\<close> does the same with the
  \<^verbatim>\<open>Auto\<close> class and its instances in the place of \<^verbatim>\<open>None\<close>; \<^verbatim>\<open>EitherOr\<close> over the
  one child returns \<open>V\<close>'s \<^verbatim>\<open>test\<close>, and over two children returns true when \<open>V\<close>'s
  \<^verbatim>\<open>test\<close> is true, raises what it raises, and otherwise returns the \<^verbatim>\<open>test\<close> of the
  second; \<^verbatim>\<open>SequenceOf\<close> on a one-element list within the bounds returns \<open>V\<close>'s
  \<^verbatim>\<open>test\<close> of the element, and it accepts a non-empty sequence exactly when the length
  is within the bounds and \<open>V\<close>'s \<^verbatim>\<open>test\<close> is true of every element.
\<close>

theorem Validator_call_is_test:
  "Validator_call V x = test V x
   \<and> NoneOr_test (NoneOr_init (Validator_call V)) x
       = (if x = PNone then Inr True else test V x)
   \<and> AutoOr_test (NoneOr_init (Validator_call V)) x
       = (if x = PClass ''Auto'' \<or> py_type x = T_class ''Auto'' then Inr True else test V x)
   \<and> EitherOr_test (EitherOr_init (Inl (Validator_call V))) x = test V x
   \<and> EitherOr_test (EitherOr_init (Inr [Validator_call V, Validator_call W])) x
       = (case test V x of
            Inl err \<Rightarrow> Inl err
          | Inr b \<Rightarrow> if b then Inr True else test W x)
   \<and> SequenceOf_test (SequenceOf_init (Validator_call V) eOK nOK l h) (PList [e])
       = (if l \<le> 1 \<and> 1 \<le> h then test V e else Inr False)
   \<and> (isSeqType x \<and> seq_items x \<noteq> [] \<longrightarrow>
        (SequenceOf_test (SequenceOf_init (Validator_call V) eOK nOK l h) x = Inr True \<longleftrightarrow>
           l \<le> int (length (seq_items x)) \<and> int (length (seq_items x)) \<le> h
           \<and> (\<forall>e\<in>set (seq_items x). test V e = Inr True)))"
proof -
  have call: "Validator_call V = test V" "Validator_call W = test W"
    by (rule ext, simp add: Validator_call_def)+
  have a: "NoneOr_test (NoneOr_init (Validator_call V)) x
       = (if x = PNone then Inr True else test V x)"
    by (simp add: NoneOr_test_def NoneOr_init_def call)
  have b: "AutoOr_test (NoneOr_init (Validator_call V)) x
       = (if x = PClass ''Auto'' \<or> py_type x = T_class ''Auto'' then Inr True else test V x)"
    by (simp add: AutoOr_test_def Auto_test_def NoneOr_init_def call)
  have c: "EitherOr_test (EitherOr_init (Inl (Validator_call V))) x = test V x"
    by (simp add: EitherOr_test_def EitherOr_init_def call EitherOr_loop_single
        del: EitherOr_loop.simps)
  have d: "EitherOr_test (EitherOr_init (Inr [Validator_call V, Validator_call W])) x
       = (case test V x of
            Inl err \<Rightarrow> Inl err
          | Inr b \<Rightarrow> if b then Inr True else test W x)"
    by (simp add: EitherOr_test_def EitherOr_init_def call EitherOr_loop_single [of "test W" x]
        split: sum.splits)
  have e: "SequenceOf_test (SequenceOf_init (Validator_call V) eOK nOK l h) (PList [e])
       = (if l \<le> 1 \<and> 1 \<le> h then test V e else Inr False)"
    by (simp add: SequenceOf_test_def SequenceOf_init_def call SequenceOf_loop_single
        del: SequenceOf_loop.simps)
  have f: "isSeqType x \<and> seq_items x \<noteq> [] \<longrightarrow>
        (SequenceOf_test (SequenceOf_init (Validator_call V) eOK nOK l h) x = Inr True \<longleftrightarrow>
           l \<le> int (length (seq_items x)) \<and> int (length (seq_items x)) \<le> h
           \<and> (\<forall>e\<in>set (seq_items x). test V e = Inr True))"
    by (auto simp: SequenceOf_test_def SequenceOf_init_def py_eq_empty_seq SequenceOf_loop_True
        call)
  show ?thesis using call(1) a b c d e f by simp
qed

theorem Validator_call_is_test_witness:
  "(isSeqType (PTuple [PStr ''a'', PStr ''b'']) \<and> seq_items (PTuple [PStr ''a'', PStr ''b'']) \<noteq> [])
   \<and> SequenceOf_test (SequenceOf_init (Validator_call isString) False False 1 5)
        (PTuple [PStr ''a'', PStr ''b'']) = Inr True
   \<and> SequenceOf_test (SequenceOf_init (Validator_call isString) False False 1 5)
        (PTuple [PStr ''a'', PInt 7]) \<noteq> Inr True
   \<and> NoneOr_test (NoneOr_init (Validator_call isString)) (PInt 7) = Inr False
   \<and> EitherOr_test (EitherOr_init (Inl (Validator_call isString))) (PStr ''a'') = Inr True"
proof -
  have h1: "isSeqType (PTuple [PStr ''a'', PStr ''b''])
      \<and> seq_items (PTuple [PStr ''a'', PStr ''b'']) \<noteq> []" by simp
  have h2: "isSeqType (PTuple [PStr ''a'', PInt 7])
      \<and> seq_items (PTuple [PStr ''a'', PInt 7]) \<noteq> []" by simp
  have el: "test isString (PStr ''a'') = Inr True" "test isString (PStr ''b'') = Inr True"
    "test isString (PInt 7) = Inr False"
    by (simp_all add: isString_def plain_validator_def isString_test_def)
  show ?thesis
    using h1 h2 el
      Validator_call_is_test [of isString "PTuple [PStr ''a'', PStr ''b'']" isString False False 1 5]
      Validator_call_is_test [of isString "PTuple [PStr ''a'', PInt 7]" isString False False 1 5]
      Validator_call_is_test [of isString "PInt 7" isString]
      Validator_call_is_test [of isString "PStr ''a''" isString]
    by simp
qed

end
